theory Spec2Isabelle
  imports Complex_Main
begin

section \<open>Post-processing of OpenHantek6022: math channel and spectrum generator\<close>

text \<open>
  The development embeds \<^verbatim>\<open>MathChannelGenerator::process\<close> (mathchannelgenerator.cpp),
  \<^verbatim>\<open>SpectrumGenerator::process\<close> (spectrumgenerator.cpp) and the data of ppresult.h.

  Numbers. A C++ \<^verbatim>\<open>double\<close> is modelled as a \<^typ>\<open>real\<close>: the arithmetic is exact, and
  rounding, infinities and NaN are not represented. Where the C++ yields an infinity that
  the code then relies on (\<^verbatim>\<open>log10(0)\<close>) the case is written out in the model; a division
  by zero has HOL's value 0 where the C++ has an infinity or NaN, which happens for a
  single sample or a sampling interval of 0 only.
  An \<^verbatim>\<open>unsigned int\<close> is a \<^typ>\<open>nat\<close> below \<open>2^32\<close> with the wrap-around written out
  (\<open>u32\<close>, \<open>usub\<close>); a \<^verbatim>\<open>size_t\<close> vector length is a \<^typ>\<open>nat\<close>. The loops whose 32-bit
  counter runs up to a vector length are modelled on the list itself, which is what the
  code does for vectors shorter than \<open>2^32\<close> elements.
\<close>

subsection \<open>Unsigned 32-bit arithmetic\<close>

definition u32 :: "nat \<Rightarrow> nat" where
  \<comment> \<open>the conversion \<^verbatim>\<open>(unsigned)x\<close> of a \<^verbatim>\<open>size_t\<close>\<close>
  "u32 n = n mod 4294967296"

definition usub :: "nat \<Rightarrow> nat \<Rightarrow> nat" where
  \<comment> \<open>\<^verbatim>\<open>a - b\<close> on \<^verbatim>\<open>unsigned int\<close>, for \<open>a\<close>, \<open>b\<close> below \<open>2^32\<close>\<close>
  "usub a b = (a + 4294967296 - b) mod 4294967296"

subsection \<open>Data (ppresult.h)\<close>

record SampleValues =
  sample :: "real list"
  interval :: real

record DataChannel =
  voltage :: SampleValues
  spectrum :: SampleValues
  frequency :: real
  dc :: real
  ac :: real
  rms :: real
  valid :: bool

text \<open>
  \<^verbatim>\<open>PPresult\<close> is used through \<^verbatim>\<open>channelCount()\<close>, \<^verbatim>\<open>data(channel)\<close> and
  \<^verbatim>\<open>modifyData(channel)\<close> only: it is the vector \<^verbatim>\<open>analyzedData\<close>.
\<close>

type_synonym PPresult = "DataChannel list"

definition resize :: "nat \<Rightarrow> real list \<Rightarrow> real list" where
  \<comment> \<open>\<^verbatim>\<open>std::vector<double>::resize\<close>: truncates, or appends zeros\<close>
  "resize n xs = take n xs @ replicate (n - length xs) 0"

subsection \<open>Settings\<close>

text \<open>
  The settings classes are declared outside the embedded files. The model takes what the
  two generators read from them: the per-channel \<^verbatim>\<open>used\<close> flags of \<^verbatim>\<open>scope->voltage\<close>
  and \<^verbatim>\<open>scope->spectrum\<close>, the value of
  \<^verbatim>\<open>Dso::getMathMode(scope->voltage[physicalChannels])\<close>, and the three post-processing
  settings. The enumerations have the constants that the two \<^verbatim>\<open>switch\<close> statements name.
\<close>

datatype MathMode = ADD_CH1_CH2 | SUB_CH2_FROM_CH1 | SUB_CH1_FROM_CH2

datatype WindowFunction =
  RECTANGULAR | HAMMING | HANN | COSINE | LANCZOS | BARTLETT | TRIANGULAR | GAUSS
  | BARTLETTHANN | BLACKMAN | NUTTALL | BLACKMANHARRIS | BLACKMANNUTTALL | FLATTOP

record DsoSettingsScope =
  voltage_used :: "nat \<Rightarrow> bool"
  spectrum_used :: "nat \<Rightarrow> bool"
  mathMode :: MathMode

record DsoSettingsPostProcessing =
  spectrumWindow :: WindowFunction
  spectrumReference :: real
  spectrumLimit :: real

subsection \<open>MathChannelGenerator::process\<close>

definition mathValue :: "MathMode \<Rightarrow> real \<Rightarrow> real \<Rightarrow> real" where
  "mathValue m ch1 ch2 =
     (case m of
        ADD_CH1_CH2 \<Rightarrow> ch1 + ch2
      | SUB_CH2_FROM_CH1 \<Rightarrow> ch1 - ch2
      | SUB_CH1_FROM_CH2 \<Rightarrow> ch2 - ch1)"

text \<open>
  The inner loop walks \<^verbatim>\<open>resultData\<close> with the two input iterators beside it. The vector
  was resized to the shorter input before, so the inputs never run out first; the last
  equation is for that case only.
\<close>

fun math_values :: "MathMode \<Rightarrow> real list \<Rightarrow> real list \<Rightarrow> real list \<Rightarrow> real list" where
  "math_values m (r # resultData) (a # ch1) (b # ch2) =
     mathValue m a b # math_values m resultData ch1 ch2"
| "math_values m resultData ch1 ch2 = resultData"

definition math_channel :: "DsoSettingsScope \<Rightarrow> DataChannel \<Rightarrow> DataChannel \<Rightarrow> DataChannel \<Rightarrow> DataChannel" where
  "math_channel scope d0 d1 channelData =
     (let ch1 = sample (voltage d0);
          ch2 = sample (voltage d1);
          resultData = resize (min (length ch1) (length ch2)) (sample (voltage channelData))
      in channelData\<lparr>voltage :=
           \<lparr>sample = math_values (mathMode scope) resultData ch1 ch2,
            interval = interval (voltage d0)\<rparr>\<rparr>)"

definition math_step :: "DsoSettingsScope \<Rightarrow> PPresult \<Rightarrow> nat \<Rightarrow> PPresult" where
  \<comment> \<open>one iteration of the channel loop; channels 0 and 1 are read from the current result\<close>
  "math_step scope result channel =
     (if \<not> voltage_used scope channel \<and> \<not> spectrum_used scope channel then result
      else result[channel := math_channel scope (result ! 0) (result ! 1) (result ! channel)])"

text \<open>
  \<^verbatim>\<open>data(0)\<close> and \<^verbatim>\<open>data(1)\<close> are read before anything else; with fewer than two channels
  the access is out of range, which the model returns as \<open>None\<close>.
\<close>

definition math_process :: "DsoSettingsScope \<Rightarrow> nat \<Rightarrow> PPresult \<Rightarrow> PPresult option" where
  "math_process scope physicalChannels result =
     (if length result < 2 then None
      else if sample (voltage (result ! 0)) = [] \<or> sample (voltage (result ! 1)) = [] then Some result
      else Some (foldl (math_step scope) result [physicalChannels ..< length result]))"

subsection \<open>SpectrumGenerator: the window buffer\<close>

text \<open>
  The coefficient that the \<^verbatim>\<open>switch\<close> stores at \<open>windowPosition\<close>. The operands
  \<open>windowPosition\<close>, \<open>windowEnd\<close> and \<open>lastRecordLength\<close> are \<^verbatim>\<open>unsigned int\<close>: a quotient
  or difference of two of them is computed on unsigned integers (\<open>div\<close>, \<open>usub\<close>) before
  it is converted to \<^verbatim>\<open>double\<close>; with a \<^verbatim>\<open>double\<close> operand the conversion comes first.
\<close>

definition windowValue :: "WindowFunction \<Rightarrow> nat \<Rightarrow> nat \<Rightarrow> nat \<Rightarrow> real" where
  "windowValue w lastRecordLength windowEnd windowPosition =
     (case w of
        HAMMING \<Rightarrow> 0.54 - 0.46 * cos (2.0 * pi * real windowPosition / real windowEnd)
      | HANN \<Rightarrow> 0.5 * (1.0 - cos (2.0 * pi * real windowPosition / real windowEnd))
      | COSINE \<Rightarrow> sin (pi * real windowPosition / real windowEnd)
      | LANCZOS \<Rightarrow>
          (let sincParameter = (2.0 * real windowPosition / real windowEnd - 1.0) * pi
           in if sincParameter = 0 then 1 else sin sincParameter / sincParameter)
      | BARTLETT \<Rightarrow>
          2.0 / real windowEnd
            * (real (windowEnd div 2) - \<bar>real windowPosition - real windowEnd / 2.0\<bar>)
      | TRIANGULAR \<Rightarrow>
          2.0 / real lastRecordLength
            * (real (lastRecordLength div 2) - \<bar>real windowPosition - real windowEnd / 2.0\<bar>)
      | GAUSS \<Rightarrow>
          (let sigma = 0.4
           in exp (- 0.5 * (real (usub windowPosition (windowEnd div 2))
                              / (sigma * real windowEnd / 2)) ^ 2))
      | BARTLETTHANN \<Rightarrow>
          0.62 - 0.48 * \<bar>real (windowPosition div windowEnd) - 0.5\<bar>
            - 0.38 * cos (2.0 * pi * real windowPosition / real windowEnd)
      | BLACKMAN \<Rightarrow>
          (let alpha = 0.16
           in (1 - alpha) / 2 - 0.5 * cos (2.0 * pi * real windowPosition / real windowEnd)
                + alpha / 2 * cos (4.0 * pi * real windowPosition / real windowEnd))
      | NUTTALL \<Rightarrow>
          0.355768 - 0.487396 * cos (2 * pi * real windowPosition / real windowEnd)
            + 0.144232 * cos (4 * pi * real windowPosition / real windowEnd)
            - 0.012604 * cos (6 * pi * real windowPosition / real windowEnd)
      | BLACKMANHARRIS \<Rightarrow>
          0.35875 - 0.48829 * cos (2 * pi * real windowPosition / real windowEnd)
            + 0.14128 * cos (4 * pi * real windowPosition / real windowEnd)
            - 0.01168 * cos (6 * pi * real windowPosition / real windowEnd)
      | BLACKMANNUTTALL \<Rightarrow>
          0.3635819 - 0.4891775 * cos (2 * pi * real windowPosition / real windowEnd)
            + 0.1365995 * cos (4 * pi * real windowPosition / real windowEnd)
            - 0.0106411 * cos (6 * pi * real windowPosition / real windowEnd)
      | FLATTOP \<Rightarrow>
          1.0 - 1.93 * cos (2 * pi * real windowPosition / real windowEnd)
            + 1.29 * cos (4 * pi * real windowPosition / real windowEnd)
            - 0.388 * cos (6 * pi * real windowPosition / real windowEnd)
            + 0.028 * cos (8 * pi * real windowPosition / real windowEnd)
      | RECTANGULAR \<Rightarrow> 1.0)"

text \<open>
  The members of the generator that outlive a call: \<open>lastWindowBuffer\<close> (\<open>None\<close> is the
  null pointer), and the two tags. A buffer holds the \<open>lastRecordLength\<close> coefficients
  that the loops write.
\<close>

record SpectrumGenerator =
  lastWindowBuffer :: "real list option"
  lastWindow :: WindowFunction
  lastRecordLength :: nat

definition newWindow :: "WindowFunction \<Rightarrow> nat \<Rightarrow> SpectrumGenerator" where
  \<comment> \<open>the body of the \<^verbatim>\<open>if\<close>: allocate, set the tags, fill\<close>
  "newWindow w sampleCount =
     (let lrl = u32 sampleCount;
          windowEnd = usub lrl 1
      in \<lparr>lastWindowBuffer = Some (map (windowValue w lrl windowEnd) [0 ..< lrl]),
          lastWindow = w,
          lastRecordLength = lrl\<rparr>)"

definition calculateWindow :: "DsoSettingsPostProcessing \<Rightarrow> nat \<Rightarrow> SpectrumGenerator \<Rightarrow> SpectrumGenerator" where
  "calculateWindow postprocessing sampleCount g =
     (if lastWindowBuffer g = None \<or> lastWindow g \<noteq> spectrumWindow postprocessing
         \<or> lastRecordLength g \<noteq> sampleCount
      then newWindow (spectrumWindow postprocessing) sampleCount
      else g)"

subsection \<open>SpectrumGenerator: one channel\<close>

text \<open>
  FFTW is a library outside the repository. A plan of kind \<^verbatim>\<open>FFTW_R2HC\<close> or
  \<^verbatim>\<open>FFTW_HC2R\<close> is a parameter here: given the length \<open>n\<close> and the input array it tells
  the value written at each of the \<open>n\<close> output positions.
\<close>

type_synonym fftw_r2r = "nat \<Rightarrow> real list \<Rightarrow> nat \<Rightarrow> real"

definition fftw_execute :: "fftw_r2r \<Rightarrow> nat \<Rightarrow> real list \<Rightarrow> real list" where
  "fftw_execute plan n input = map (plan n input) [0 ..< n]"

definition average :: "real list \<Rightarrow> real" where
  \<comment> \<open>\<^verbatim>\<open>dc\<close>: the first loop, then \<^verbatim>\<open>dc /= sampleCount\<close>\<close>
  "average samples = foldl (\<lambda>dcv x. dcv + x) 0.0 samples / real (length samples)"

definition acSquare :: "real \<Rightarrow> real list \<Rightarrow> real" where
  \<comment> \<open>\<^verbatim>\<open>ac2\<close>: the second loop, then \<^verbatim>\<open>ac2 /= sampleCount\<close>\<close>
  "acSquare dcv samples =
     foldl (\<lambda>ac2 x. let ac_sample = x - dcv in ac2 + ac_sample * ac_sample) 0.0 samples
       / real (length samples)"

definition windowedValues :: "real list \<Rightarrow> real \<Rightarrow> real list \<Rightarrow> real list" where
  \<comment> \<open>the buffer that the second loop fills beside \<^verbatim>\<open>ac2\<close>\<close>
  "windowedValues window dcv samples =
     map (\<lambda>position. window ! position * (samples ! position - dcv)) [0 ..< length samples]"

text \<open>
  The magnitude pass works on the pair of \<open>conjugateComplex\<close> (the former
  \<open>windowedValues\<close>) and \<open>spectrum.sample\<close>. At \<open>position\<close> the forward iterator is at
  index \<open>position\<close> and the reverse iterator at index \<open>sampleCount - position\<close>.
\<close>

definition magnitude_step :: "nat \<Rightarrow> real \<Rightarrow> real list \<times> real list \<Rightarrow> nat \<Rightarrow> real list \<times> real list" where
  "magnitude_step sampleCount correctionFactor cs position =
     (let conjugateComplex = fst cs; spec = snd cs;
          fwd = spec ! position; rev = spec ! (sampleCount - position)
      in (conjugateComplex[position := (fwd * fwd + rev * rev) * correctionFactor],
          spec[position := sqrt (fwd * fwd + rev * rev)]))"

definition magnitude_pass :: "nat \<Rightarrow> nat \<Rightarrow> real list \<Rightarrow> real list \<Rightarrow> real list \<times> real list" where
  "magnitude_pass sampleCount dftLength windowed spec =
     (let correctionFactor = 1.0 / real dftLength / real dftLength;
          cc0 = windowed[0 := spec ! 0 * spec ! 0 * correctionFactor];
          cs = foldl (magnitude_step sampleCount correctionFactor) (cc0, spec) [1 ..< dftLength];
          position = (if 1 < dftLength then dftLength else 1);
          cc1 = (fst cs)[position := snd cs ! position * snd cs ! position * correctionFactor];
          cc2 = foldl (\<lambda>cc p. cc[p := 0]) cc1 [Suc position ..< sampleCount]
      in (cc2, resize (usub dftLength 1) (snd cs)))"

text \<open>The search for the correlation peak: the state is
  \<open>(minimumCorrelation, peakCorrelation, peakPosition)\<close>.\<close>

definition peak_step :: "real list \<Rightarrow> real \<times> real \<times> nat \<Rightarrow> nat \<Rightarrow> real \<times> real \<times> nat" where
  "peak_step correlation st position =
     (case st of (minimumCorrelation, peakCorrelation, peakPosition) \<Rightarrow>
        if correlation ! position > peakCorrelation \<and> correlation ! position > minimumCorrelation
        then (minimumCorrelation, correlation ! position, position)
        else if correlation ! position < minimumCorrelation
        then (correlation ! position, peakCorrelation, peakPosition)
        else (minimumCorrelation, peakCorrelation, peakPosition))"

definition peak_search :: "real list \<Rightarrow> nat \<Rightarrow> real \<times> real \<times> nat" where
  "peak_search correlation sampleCount =
     foldl (peak_step correlation) (correlation ! 0, 0, 0) [1 ..< sampleCount div 2]"

definition peakPosition :: "real list \<Rightarrow> nat \<Rightarrow> nat" where
  "peakPosition correlation sampleCount = snd (snd (peak_search correlation sampleCount))"

definition correlationFrequency :: "real \<Rightarrow> nat \<Rightarrow> real" where
  \<comment> \<open>the frequency before the spectrum peak is looked at\<close>
  "correlationFrequency voltageInterval peakPos =
     (if peakPos > 100 then 1.0 / (voltageInterval * real peakPos) else 0)"

text \<open>
  The conversion into dB. \<^verbatim>\<open>log10(0)\<close> is minus infinity in C++, which is below every
  limit: a bin that is 0 gets the limit.
\<close>

definition dBValue :: "real \<Rightarrow> real \<Rightarrow> real \<Rightarrow> real" where
  "dBValue offset offsetLimit bin =
     (if bin = 0 then offsetLimit
      else let v = 20 * log 10 \<bar>bin\<bar> + offset
           in if offsetLimit > v then offsetLimit else v)"

fun dB_loop :: "real \<Rightarrow> real \<Rightarrow> real list \<Rightarrow> nat \<Rightarrow> real \<Rightarrow> nat \<Rightarrow> real list \<times> nat" where
  "dB_loop offset offsetLimit [] position peakSpectrum peakPos = ([], peakPos)"
| "dB_loop offset offsetLimit (bin # bins) position peakSpectrum peakPos =
     (let v = dBValue offset offsetLimit bin;
          r = (if peakSpectrum < v
               then dB_loop offset offsetLimit bins (Suc position) v position
               else dB_loop offset offsetLimit bins (Suc position) peakSpectrum peakPos)
      in (v # fst r, snd r))"

definition dB_pass :: "DsoSettingsPostProcessing \<Rightarrow> nat \<Rightarrow> real list \<Rightarrow> real list \<times> nat" where
  \<comment> \<open>the body of the last \<^verbatim>\<open>if\<close>: the converted bins and \<open>peakPos\<close>\<close>
  "dB_pass postprocessing dftLength spec =
     (let offset = 60 - spectrumReference postprocessing - 20 * log 10 (real dftLength);
          offsetLimit = spectrumLimit postprocessing - spectrumReference postprocessing;
          peakSpectrum = spec ! 0
      in dB_loop offset offsetLimit spec 0 peakSpectrum 0)"

text \<open>The stages up to the correlation, as functions of what the channel pass is given.\<close>

definition dftLength_of :: "nat \<Rightarrow> nat" where
  "dftLength_of sampleCount = u32 (sampleCount div 2)"

definition magnitudes :: "fftw_r2r \<Rightarrow> DsoSettingsPostProcessing \<Rightarrow> SpectrumGenerator \<Rightarrow> DataChannel \<Rightarrow> real list \<times> real list" where
  \<comment> \<open>\<open>conjugateComplex\<close> and the truncated \<open>spectrum.sample\<close> after the magnitude pass\<close>
  "magnitudes r2hc postprocessing g channelData =
     (let samples = sample (voltage channelData);
          sampleCount = length samples;
          window = the (lastWindowBuffer (calculateWindow postprocessing sampleCount g));
          windowed = windowedValues window (average samples) samples;
          spec = fftw_execute r2hc sampleCount windowed
      in magnitude_pass sampleCount (dftLength_of sampleCount) windowed spec)"

definition truncatedSpectrum :: "fftw_r2r \<Rightarrow> DsoSettingsPostProcessing \<Rightarrow> SpectrumGenerator \<Rightarrow> DataChannel \<Rightarrow> real list" where
  "truncatedSpectrum r2hc postprocessing g channelData = snd (magnitudes r2hc postprocessing g channelData)"

definition correlation_of :: "fftw_r2r \<Rightarrow> fftw_r2r \<Rightarrow> DsoSettingsPostProcessing \<Rightarrow> SpectrumGenerator \<Rightarrow> DataChannel \<Rightarrow> real list" where
  "correlation_of r2hc hc2r postprocessing g channelData =
     fftw_execute hc2r (length (sample (voltage channelData)))
       (fst (magnitudes r2hc postprocessing g channelData))"

definition process_channel ::
  "fftw_r2r \<Rightarrow> fftw_r2r \<Rightarrow> bool \<Rightarrow> DsoSettingsPostProcessing \<Rightarrow> SpectrumGenerator \<Rightarrow> DataChannel
     \<Rightarrow> SpectrumGenerator \<times> DataChannel" where
  "process_channel r2hc hc2r spectrumUsed postprocessing g channelData =
     (let samples = sample (voltage channelData);
          sampleCount = length samples;
          g' = calculateWindow postprocessing sampleCount g;
          spectrumInterval = 1.0 / interval (voltage channelData) / real sampleCount;
          dftLength = dftLength_of sampleCount;
          dcv = average samples;
          ac2 = acSquare dcv samples;
          spec = truncatedSpectrum r2hc postprocessing g channelData;
          correlation = correlation_of r2hc hc2r postprocessing g channelData;
          peakCorr = peakPosition correlation sampleCount;
          frequency0 = correlationFrequency (interval (voltage channelData)) peakCorr;
          converted = (if spectrumUsed \<or> 0 = frequency0
                       then dB_pass postprocessing dftLength spec else (spec, 0));
          peakPos = snd converted
      in (g',
          channelData\<lparr>spectrum := \<lparr>sample = fst converted, interval = spectrumInterval\<rparr>,
                      frequency := (if peakPos \<noteq> 0 then spectrumInterval * real peakPos else frequency0),
                      dc := dcv,
                      ac := sqrt ac2,
                      rms := sqrt (dcv * dcv + ac2)\<rparr>))"

subsection \<open>SpectrumGenerator::process\<close>

fun process_channels ::
  "fftw_r2r \<Rightarrow> fftw_r2r \<Rightarrow> DsoSettingsScope \<Rightarrow> DsoSettingsPostProcessing \<Rightarrow> nat \<Rightarrow> SpectrumGenerator
     \<Rightarrow> DataChannel list \<Rightarrow> SpectrumGenerator \<times> DataChannel list" where
  "process_channels r2hc hc2r scope postprocessing channel g [] = (g, [])"
| "process_channels r2hc hc2r scope postprocessing channel g (channelData # rest) =
     (if sample (voltage channelData) = []
      then (let r = process_channels r2hc hc2r scope postprocessing (Suc channel) g rest
            in (fst r, channelData\<lparr>spectrum := \<lparr>sample = [], interval = 0\<rparr>\<rparr> # snd r))
      else (let c = process_channel r2hc hc2r (spectrum_used scope channel) postprocessing g channelData;
                r = process_channels r2hc hc2r scope postprocessing (Suc channel) (fst c) rest
            in (fst r, snd c # snd r)))"

definition spectrum_process ::
  "fftw_r2r \<Rightarrow> fftw_r2r \<Rightarrow> DsoSettingsScope \<Rightarrow> DsoSettingsPostProcessing \<Rightarrow> SpectrumGenerator \<Rightarrow> PPresult
     \<Rightarrow> SpectrumGenerator \<times> PPresult" where
  "spectrum_process r2hc hc2r scope postprocessing g result =
     process_channels r2hc hc2r scope postprocessing 0 g result"


subsection \<open>Notions used to state the properties\<close>

text \<open>A position whose correlation value can become the peak: the value is positive and
  some earlier value is smaller (it exceeds the running minimum).\<close>

definition peakCandidate :: "real list \<Rightarrow> nat \<Rightarrow> bool" where
  "peakCandidate c p = (0 < c ! p \<and> (\<exists>q \<in> {0 ..< p}. c ! q < c ! p))"

text \<open>
  The peak as the specification words it, kept apart from the code's search: the first
  position among \<open>1..N/2-1\<close> that is a local maximum (above its left neighbour, not below
  its right one) and exceeds the running minimum; 0 when there is none.
\<close>

definition localMaximum_spec :: "real list \<Rightarrow> nat \<Rightarrow> nat \<Rightarrow> bool" where
  "localMaximum_spec c n p =
     (c ! (p - 1) < c ! p \<and> (Suc p < n \<longrightarrow> c ! Suc p \<le> c ! p)
      \<and> (\<exists>q \<in> {0 ..< p}. c ! q < c ! p))"

definition firstLocalMaximum_spec :: "real list \<Rightarrow> nat \<Rightarrow> nat" where
  "firstLocalMaximum_spec c sampleCount =
     (case filter (localMaximum_spec c (sampleCount div 2)) [1 ..< sampleCount div 2] of
        [] \<Rightarrow> 0
      | p # ps \<Rightarrow> p)"

text \<open>The invariant of the peak search before position \<open>m\<close>.\<close>

definition peak_inv :: "real list \<Rightarrow> nat \<Rightarrow> real \<times> real \<times> nat \<Rightarrow> bool" where
  "peak_inv c m st =
     (case st of (minC, peakC, P) \<Rightarrow>
        (\<forall>q<m. minC \<le> c ! q) \<and> (\<exists>q<m. minC = c ! q) \<and> P < m
        \<and> (if P = 0 then peakC = 0 \<and> (\<forall>p. 1 \<le> p \<and> p < m \<longrightarrow> \<not> peakCandidate c p)
            else peakCandidate c P \<and> peakC = c ! P
                 \<and> (\<forall>p. 1 \<le> p \<and> p < m \<and> peakCandidate c p \<longrightarrow>
                        c ! p \<le> c ! P \<and> (p < P \<longrightarrow> c ! p < c ! P))))"


subsection \<open>Inputs for the examples\<close>

text \<open>
  The discrete Fourier transforms that FFTW documents for the two plan kinds, in its
  halfcomplex layout (\<open>r0, r1, ..., r(n/2), i((n+1)/2-1), ..., i1\<close>); they stand for the
  library where an example needs a plan.
\<close>

definition dft_r2hc :: fftw_r2r where
  "dft_r2hc n x k =
     (if k \<le> n div 2
      then (\<Sum>j = 0 ..< n. x ! j * cos (2 * pi * real j * real k / real n))
      else - (\<Sum>j = 0 ..< n. x ! j * sin (2 * pi * real j * real (n - k) / real n)))"

definition dft_hc2r :: fftw_r2r where
  "dft_hc2r n h j =
     h ! 0
     + (\<Sum>k = 1 ..< (n + 1) div 2.
          2 * (h ! k * cos (2 * pi * real j * real k / real n)
               - h ! (n - k) * sin (2 * pi * real j * real k / real n)))
     + (if even n \<and> 0 < n then h ! (n div 2) * cos (pi * real j) else 0)"

definition channel_of :: "real list \<Rightarrow> real \<Rightarrow> DataChannel" where
  \<comment> \<open>a channel as the constructor leaves it, with the given voltage trace\<close>
  "channel_of samples dt =
     \<lparr>voltage = \<lparr>sample = samples, interval = dt\<rparr>, spectrum = \<lparr>sample = [], interval = 0\<rparr>,
      frequency = 0, dc = 0, ac = 0, rms = 0, valid = True\<rparr>"

definition example_scope :: DsoSettingsScope where
  "example_scope = \<lparr>voltage_used = (\<lambda>c. True), spectrum_used = (\<lambda>c. True), mathMode = ADD_CH1_CH2\<rparr>"

definition example_postprocessing :: DsoSettingsPostProcessing where
  "example_postprocessing = \<lparr>spectrumWindow = HAMMING, spectrumReference = 0, spectrumLimit = - 20\<rparr>"

definition rectangular_postprocessing :: DsoSettingsPostProcessing where
  "rectangular_postprocessing =
     \<lparr>spectrumWindow = RECTANGULAR, spectrumReference = 0, spectrumLimit = - 20\<rparr>"

definition cosine6 :: "real list" where
  \<comment> \<open>\<open>0.0005 * cos (2 * pi * j / 6)\<close> for \<open>j = 0, ..., 5\<close>\<close>
  "cosine6 = [0.0005, 0.00025, - 0.00025, - 0.0005, - 0.00025, 0.00025]"


definition new_generator :: SpectrumGenerator where
  \<comment> \<open>no buffer yet; the tags are not read in this state\<close>
  "new_generator = \<lparr>lastWindowBuffer = None, lastWindow = RECTANGULAR, lastRecordLength = 0\<rparr>"

section \<open>Properties\<close>

subsection \<open>Math channel\<close>

lemma length_resize: "length (resize n xs) = n"
  by (simp add: resize_def)

lemma math_values_zip:
  "length rs = min (length xs) (length ys) \<Longrightarrow>
   math_values m rs xs ys = map (\<lambda>(a, b). mathValue m a b) (zip xs ys)"
proof (induction rs arbitrary: xs ys)
  case Nil
  then show ?case by (cases xs; cases ys) auto
next
  case (Cons r rs)
  then obtain a xs' b ys' where "xs = a # xs'" and "ys = b # ys'"
    by (cases xs; cases ys) auto
  with Cons show ?case by simp
qed

lemma math_channel_sample:
  "sample (voltage (math_channel scope d0 d1 c)) =
     map (\<lambda>(a, b). mathValue (mathMode scope) a b) (zip (sample (voltage d0)) (sample (voltage d1)))"
  by (simp add: math_channel_def Let_def math_values_zip length_resize)

lemma math_channel_interval:
  "interval (voltage (math_channel scope d0 d1 c)) = interval (voltage d0)"
  by (simp add: math_channel_def Let_def)

lemma length_math_step: "length (math_step scope result channel) = length result"
  by (simp add: math_step_def)

lemma length_math_loop:
  "length (foldl (math_step scope) result cs) = length result"
  by (induction cs arbitrary: result) (simp_all add: length_math_step)

lemma math_step_same:
  "c < length r \<Longrightarrow> voltage_used scope c \<or> spectrum_used scope c \<Longrightarrow>
   math_step scope r c ! c = math_channel scope (r ! 0) (r ! 1) (r ! c)"
  by (auto simp: math_step_def)

lemma math_step_other: "j \<noteq> c \<Longrightarrow> math_step scope r c ! j = r ! j"
  by (simp add: math_step_def)

lemma math_loop_other:
  "j \<notin> set cs \<Longrightarrow> foldl (math_step scope) result cs ! j = result ! j"
proof (induction cs arbitrary: result)
  case Nil
  then show ?case by simp
next
  case (Cons c cs)
  have "math_step scope result c ! j = result ! j"
    using Cons.prems by (simp add: math_step_other)
  with Cons show ?case by simp
qed

lemma math_loop_at:
  assumes "2 \<le> a" and "a \<le> c" and "c < b" and "b \<le> length result"
    and "voltage_used scope c \<or> spectrum_used scope c"
  shows "foldl (math_step scope) result [a ..< b] ! c =
           math_channel scope (result ! 0) (result ! 1) (result ! c)"
  using assms
proof (induction b)
  case 0
  then show ?case by simp
next
  case (Suc b)
  let ?r = "foldl (math_step scope) result [a ..< b]"
  have len: "length ?r = length result" by (rule length_math_loop)
  have r0: "?r ! 0 = result ! 0" and r1: "?r ! 1 = result ! 1"
    using Suc.prems(1) by (auto intro!: math_loop_other)
  have step: "foldl (math_step scope) result [a ..< Suc b] = math_step scope ?r b"
    using Suc.prems by simp
  show ?case
  proof (cases "c = b")
    case True
    have "?r ! b = result ! b"
      by (rule math_loop_other) simp
    with True Suc.prems len r0 r1 show ?thesis
      by (simp add: step math_step_same)
  next
    case False
    with Suc.prems have "c < b" by simp
    with Suc have IH: "?r ! c = math_channel scope (result ! 0) (result ! 1) (result ! c)"
      by simp
    from False IH show ?thesis
      unfolding step by (simp add: math_step_other)
  qed
qed

text \<open>
  C4. With samples on both physical channels 0 and 1, every enabled derived channel
  (index from \<open>physicalChannels\<close> on, the two physical channels below it) gets, for
  every \<open>i\<close> below the shorter input length, the sum \<open>ch1[i] + ch2[i]\<close>, the difference
  \<open>ch1[i] - ch2[i]\<close> or the difference \<open>ch2[i] - ch1[i]\<close>, as the math mode selects; it
  has exactly the shorter length (the call returns a result also for unequal lengths), and
  takes its sampling interval from channel 0.
\<close>

theorem math_process_derived_channel:
  assumes "sample (voltage (result ! 0)) \<noteq> []" and "sample (voltage (result ! 1)) \<noteq> []"
    and "2 \<le> physicalChannels" and "physicalChannels \<le> c" and "c < length result"
    and "voltage_used scope c \<or> spectrum_used scope c"
  shows "\<exists>result'. math_process scope physicalChannels result = Some result'
           \<and> length result' = length result
           \<and> length (sample (voltage (result' ! c)))
               = min (length (sample (voltage (result ! 0)))) (length (sample (voltage (result ! 1))))
           \<and> (\<forall>i < min (length (sample (voltage (result ! 0)))) (length (sample (voltage (result ! 1)))).
                 sample (voltage (result' ! c)) ! i
                   = (case mathMode scope of
                        ADD_CH1_CH2 \<Rightarrow>
                          sample (voltage (result ! 0)) ! i + sample (voltage (result ! 1)) ! i
                      | SUB_CH2_FROM_CH1 \<Rightarrow>
                          sample (voltage (result ! 0)) ! i - sample (voltage (result ! 1)) ! i
                      | SUB_CH1_FROM_CH2 \<Rightarrow>
                          sample (voltage (result ! 1)) ! i - sample (voltage (result ! 0)) ! i))
           \<and> interval (voltage (result' ! c)) = interval (voltage (result ! 0))"
proof -
  let ?r = "foldl (math_step scope) result [physicalChannels ..< length result]"
  have run: "math_process scope physicalChannels result = Some ?r"
    using assms by (simp add: math_process_def)
  have at: "?r ! c = math_channel scope (result ! 0) (result ! 1) (result ! c)"
    using assms by (intro math_loop_at) simp_all
  show ?thesis
    by (simp add: run at length_math_loop math_channel_sample math_channel_interval mathValue_def
        split: MathMode.split)
qed

theorem math_process_derived_channel_witness:
  "(\<exists>result'. math_process example_scope 2
       [channel_of [1, 2, 3, 4, 5] 0.001, channel_of [4, 5, 6] 0.002, channel_of [] 0] = Some result'
      \<and> length (sample (voltage (result' ! 2))) = 3
      \<and> sample (voltage (result' ! 2)) ! 0 = 5
      \<and> sample (voltage (result' ! 2)) ! 1 = 7
      \<and> sample (voltage (result' ! 2)) ! 2 = 9
      \<and> interval (voltage (result' ! 2)) = 0.001)
   \<and> (\<exists>result'. math_process (example_scope\<lparr>mathMode := SUB_CH2_FROM_CH1\<rparr>) 2
       [channel_of [1, 2, 3] 0.001, channel_of [4, 5, 7] 0.002, channel_of [] 0] = Some result'
      \<and> length (sample (voltage (result' ! 2))) = 3
      \<and> sample (voltage (result' ! 2)) ! 0 = - 3
      \<and> sample (voltage (result' ! 2)) ! 1 = - 3
      \<and> sample (voltage (result' ! 2)) ! 2 = - 4)
   \<and> (\<exists>result'. math_process (example_scope\<lparr>mathMode := SUB_CH1_FROM_CH2\<rparr>) 2
       [channel_of [1, 2, 3] 0.001, channel_of [4, 5, 7] 0.002, channel_of [] 0] = Some result'
      \<and> length (sample (voltage (result' ! 2))) = 3
      \<and> sample (voltage (result' ! 2)) ! 0 = 3
      \<and> sample (voltage (result' ! 2)) ! 1 = 3
      \<and> sample (voltage (result' ! 2)) ! 2 = 4)"
proof -
  have add: "\<exists>result'. math_process example_scope 2
       [channel_of [1, 2, 3, 4, 5] 0.001, channel_of [4, 5, 6] 0.002, channel_of [] 0] = Some result'
      \<and> length (sample (voltage (result' ! 2))) = 3
      \<and> sample (voltage (result' ! 2)) ! 0 = 5
      \<and> sample (voltage (result' ! 2)) ! 1 = 7
      \<and> sample (voltage (result' ! 2)) ! 2 = 9
      \<and> interval (voltage (result' ! 2)) = 0.001"
    using math_process_derived_channel
      [of "[channel_of [1, 2, 3, 4, 5] 0.001, channel_of [4, 5, 6] 0.002, channel_of [] 0]" 2 2
          example_scope]
    by (fastforce simp: channel_of_def example_scope_def)
  have sub1: "\<exists>result'. math_process (example_scope\<lparr>mathMode := SUB_CH2_FROM_CH1\<rparr>) 2
       [channel_of [1, 2, 3] 0.001, channel_of [4, 5, 7] 0.002, channel_of [] 0] = Some result'
      \<and> length (sample (voltage (result' ! 2))) = 3
      \<and> sample (voltage (result' ! 2)) ! 0 = - 3
      \<and> sample (voltage (result' ! 2)) ! 1 = - 3
      \<and> sample (voltage (result' ! 2)) ! 2 = - 4"
    using math_process_derived_channel
      [of "[channel_of [1, 2, 3] 0.001, channel_of [4, 5, 7] 0.002, channel_of [] 0]" 2 2
          "example_scope\<lparr>mathMode := SUB_CH2_FROM_CH1\<rparr>"]
    by (fastforce simp: channel_of_def example_scope_def)
  have sub2: "\<exists>result'. math_process (example_scope\<lparr>mathMode := SUB_CH1_FROM_CH2\<rparr>) 2
       [channel_of [1, 2, 3] 0.001, channel_of [4, 5, 7] 0.002, channel_of [] 0] = Some result'
      \<and> length (sample (voltage (result' ! 2))) = 3
      \<and> sample (voltage (result' ! 2)) ! 0 = 3
      \<and> sample (voltage (result' ! 2)) ! 1 = 3
      \<and> sample (voltage (result' ! 2)) ! 2 = 4"
    using math_process_derived_channel
      [of "[channel_of [1, 2, 3] 0.001, channel_of [4, 5, 7] 0.002, channel_of [] 0]" 2 2
          "example_scope\<lparr>mathMode := SUB_CH1_FROM_CH2\<rparr>"]
    by (fastforce simp: channel_of_def example_scope_def)
  from add sub1 sub2 show ?thesis by (intro conjI)
qed

subsection \<open>The channel loop of the spectrum generator\<close>

lemma usub_1: "1 \<le> n \<Longrightarrow> n < 4294967296 \<Longrightarrow> usub n 1 = n - 1"
  by (cases n) (simp_all add: usub_def)

lemma u32_id: "n < 4294967296 \<Longrightarrow> u32 n = n"
  by (simp add: u32_def)

lemma fst_dB_loop:
  "fst (dB_loop offset offsetLimit bins position peakSpectrum peakPos)
     = map (dBValue offset offsetLimit) bins"
  by (induction bins arbitrary: position peakSpectrum peakPos) (simp_all add: Let_def)

lemma fst_dB_pass:
  "fst (dB_pass pp d spec)
     = map (dBValue (60 - spectrumReference pp - 20 * log 10 (real d))
                    (spectrumLimit pp - spectrumReference pp)) spec"
  by (simp add: dB_pass_def Let_def fst_dB_loop)

lemma length_magnitude_pass: "length (snd (magnitude_pass n d w s)) = usub d 1"
  by (simp add: magnitude_pass_def Let_def length_resize)

lemma length_truncatedSpectrum:
  "length (truncatedSpectrum r2hc pp g ch) = usub (dftLength_of (length (sample (voltage ch)))) 1"
  by (simp add: truncatedSpectrum_def magnitudes_def Let_def length_magnitude_pass)

lemma spectrum_process_channel:
  "sample (spectrum (snd (process_channel r2hc hc2r used pp g ch))) =
    (if used \<or> correlationFrequency (interval (voltage ch))
                 (peakPosition (correlation_of r2hc hc2r pp g ch) (length (sample (voltage ch)))) = 0
     then map (dBValue (60 - spectrumReference pp
                          - 20 * log 10 (real (dftLength_of (length (sample (voltage ch))))))
                       (spectrumLimit pp - spectrumReference pp))
              (truncatedSpectrum r2hc pp g ch)
     else truncatedSpectrum r2hc pp g ch)"
  by (auto simp add: process_channel_def Let_def fst_dB_pass)

lemma length_spectrum_process_channel:
  "length (sample (spectrum (snd (process_channel r2hc hc2r used pp g ch))))
     = usub (dftLength_of (length (sample (voltage ch)))) 1"
  by (simp add: spectrum_process_channel length_truncatedSpectrum)

lemma process_channels_length:
  "length (snd (process_channels r2hc hc2r scope pp k g chs)) = length chs"
  by (induction chs arbitrary: k g) (simp_all add: Let_def)

lemma process_channels_nth:
  "i < length chs \<Longrightarrow>
   snd (process_channels r2hc hc2r scope pp k g chs) ! i =
     (if sample (voltage (chs ! i)) = [] then (chs ! i)\<lparr>spectrum := \<lparr>sample = [], interval = 0\<rparr>\<rparr>
      else snd (process_channel r2hc hc2r (spectrum_used scope (k + i)) pp
                  (fst (process_channels r2hc hc2r scope pp k g (take i chs))) (chs ! i)))"
proof (induction chs arbitrary: k g i)
  case Nil
  then show ?case by simp
next
  case (Cons c chs)
  show ?case
  proof (cases i)
    case 0
    then show ?thesis by (simp add: Let_def)
  next
    case (Suc j)
    with Cons.prems have j: "j < length chs" by simp
    show ?thesis using Suc Cons.IH [OF j] by (simp add: Let_def)
  qed
qed

text \<open>
  C6. After one pass, a channel with \<open>N \<ge> 2\<close> voltage samples has a spectrum of exactly
  \<open>\<lfloor>N/2\<rfloor> - 1\<close> values (for vectors shorter than \<open>2^32\<close>).
\<close>

theorem spectrum_length_after_process:
  assumes "i < length result"
    and "2 \<le> length (sample (voltage (result ! i)))"
    and "length (sample (voltage (result ! i))) < 4294967296"
  shows "length (sample (spectrum (snd (spectrum_process r2hc hc2r scope pp g result) ! i)))
           = length (sample (voltage (result ! i))) div 2 - 1"
proof -
  let ?n = "length (sample (voltage (result ! i)))"
  have "1 \<le> ?n div 2" and "?n div 2 < 4294967296" using assms by simp_all
  then have "usub (dftLength_of ?n) 1 = ?n div 2 - 1"
    by (simp only: dftLength_of_def u32_id usub_1)
  moreover have "sample (voltage (result ! i)) \<noteq> []" using assms(2) by auto
  ultimately show ?thesis
    using assms(1)
    by (simp add: spectrum_process_def process_channels_nth length_spectrum_process_channel)
qed

theorem spectrum_length_after_process_witness:
  "length (sample (spectrum (snd (spectrum_process dft_r2hc dft_hc2r example_scope
      example_postprocessing new_generator
      [channel_of [] 0, channel_of [1, 2, 3, 4, 5, 6, 7] 0.001]) ! 1))) = 2"
  using spectrum_length_after_process
    [of 1 "[channel_of [] 0, channel_of [1, 2, 3, 4, 5, 6, 7] 0.001]"
        dft_r2hc dft_hc2r example_scope example_postprocessing new_generator]
  by (simp add: channel_of_def)

text \<open>
  C9. A channel without voltage samples gets an empty spectrum with interval 0; its
  voltage trace, frequency, dc, ac, rms and valid flag stay as they were, and the loop goes
  on: the result has as many channels as before.
\<close>

theorem empty_channel_cleared:
  assumes "i < length result" and "sample (voltage (result ! i)) = []"
  shows "snd (spectrum_process r2hc hc2r scope pp g result) ! i
           = (result ! i)\<lparr>spectrum := \<lparr>sample = [], interval = 0\<rparr>\<rparr>
         \<and> length (snd (spectrum_process r2hc hc2r scope pp g result)) = length result
         \<and> voltage (snd (spectrum_process r2hc hc2r scope pp g result) ! i) = voltage (result ! i)
         \<and> frequency (snd (spectrum_process r2hc hc2r scope pp g result) ! i) = frequency (result ! i)
         \<and> dc (snd (spectrum_process r2hc hc2r scope pp g result) ! i) = dc (result ! i)
         \<and> ac (snd (spectrum_process r2hc hc2r scope pp g result) ! i) = ac (result ! i)
         \<and> rms (snd (spectrum_process r2hc hc2r scope pp g result) ! i) = rms (result ! i)
         \<and> valid (snd (spectrum_process r2hc hc2r scope pp g result) ! i) = valid (result ! i)"
  using assms by (simp add: spectrum_process_def process_channels_nth process_channels_length)

theorem empty_channel_cleared_witness:
  "snd (spectrum_process dft_r2hc dft_hc2r example_scope example_postprocessing new_generator
      [channel_of [1, 2, 3, 4] 0.001,
       \<lparr>voltage = \<lparr>sample = [], interval = 0.5\<rparr>, spectrum = \<lparr>sample = [3, 4], interval = 7\<rparr>,
        frequency = 50, dc = 1, ac = 2, rms = 3, valid = False\<rparr>]) ! 1
     = \<lparr>voltage = \<lparr>sample = [], interval = 0.5\<rparr>, spectrum = \<lparr>sample = [], interval = 0\<rparr>,
        frequency = 50, dc = 1, ac = 2, rms = 3, valid = False\<rparr>"
  using empty_channel_cleared
    [of 1 "[channel_of [1, 2, 3, 4] 0.001,
       \<lparr>voltage = \<lparr>sample = [], interval = 0.5\<rparr>, spectrum = \<lparr>sample = [3, 4], interval = 7\<rparr>,
        frequency = 50, dc = 1, ac = 2, rms = 3, valid = False\<rparr>]"
        dft_r2hc dft_hc2r example_scope example_postprocessing new_generator]
  by simp

text \<open>
  C10. Nothing guards a single sample. With \<open>N = 1\<close> the pass goes through the main
  branch: a window is computed with \<open>windowEnd = 0\<close>, \<open>dftLength\<close> is 0, and the spectrum is
  resized to \<open>dftLength - 1\<close>, which on \<^verbatim>\<open>unsigned int\<close> is \<open>4294967295\<close>.
\<close>

theorem single_sample_not_guarded:
  "newWindow w 1 = \<lparr>lastWindowBuffer = Some [windowValue w 1 0 0], lastWindow = w, lastRecordLength = 1\<rparr>
   \<and> dftLength_of 1 = 0
   \<and> length (sample (spectrum (snd (spectrum_process r2hc hc2r scope pp g [channel_of [x] dt]) ! 0)))
       = 4294967295"
proof -
  have "newWindow w 1 = \<lparr>lastWindowBuffer = Some [windowValue w 1 0 0], lastWindow = w, lastRecordLength = 1\<rparr>"
    by (simp add: newWindow_def u32_def usub_def Let_def)
  moreover have "dftLength_of 1 = 0"
    by (simp add: dftLength_of_def u32_def)
  moreover have "length (sample (spectrum (snd (spectrum_process r2hc hc2r scope pp g [channel_of [x] dt]) ! 0)))
       = 4294967295"
  proof -
    have n: "length (sample (voltage (channel_of [x] dt))) = 1"
      by (simp add: channel_of_def)
    have "snd (spectrum_process r2hc hc2r scope pp g [channel_of [x] dt]) ! 0
            = snd (process_channel r2hc hc2r (spectrum_used scope 0) pp g (channel_of [x] dt))"
      by (simp add: spectrum_process_def Let_def channel_of_def)
    then have "length (sample (spectrum (snd (spectrum_process r2hc hc2r scope pp g [channel_of [x] dt]) ! 0)))
                 = usub (dftLength_of 1) 1"
      by (simp only: length_spectrum_process_channel n)
    also have "\<dots> = 4294967295"
      by (simp add: dftLength_of_def u32_def usub_def)
    finally show ?thesis .
  qed
  ultimately show ?thesis by simp
qed

subsection \<open>The window buffer\<close>


subsection \<open>Statistics\<close>

lemma foldl_add_sum: "foldl (\<lambda>dcv x. dcv + x) s xs = s + sum_list xs" for s :: real
  by (induction xs arbitrary: s) simp_all

lemma foldl_square_sum:
  "foldl (\<lambda>ac2 x. let ac_sample = x - m in ac2 + ac_sample * ac_sample) s xs
     = s + (\<Sum>x\<leftarrow>xs. (x - m)\<^sup>2)" for s :: real
  by (induction xs arbitrary: s) (simp_all add: Let_def power2_eq_square)

lemma average_eq: "average xs = sum_list xs / real (length xs)"
  by (simp add: average_def foldl_add_sum)

lemma acSquare_eq: "acSquare m xs = (\<Sum>x\<leftarrow>xs. (x - m)\<^sup>2) / real (length xs)"
  by (simp add: acSquare_def foldl_square_sum)

lemma acSquare_nonneg: "0 \<le> acSquare m xs"
  unfolding acSquare_eq by (intro divide_nonneg_nonneg sum_list_nonneg) auto

lemma process_channel_dc:
  "dc (snd (process_channel r2hc hc2r used pp g ch)) = average (sample (voltage ch))"
  by (simp add: process_channel_def Let_def)

lemma process_channel_ac:
  "ac (snd (process_channel r2hc hc2r used pp g ch))
     = sqrt (acSquare (average (sample (voltage ch))) (sample (voltage ch)))"
  by (simp add: process_channel_def Let_def)

lemma process_channel_rms:
  "rms (snd (process_channel r2hc hc2r used pp g ch))
     = sqrt (average (sample (voltage ch)) * average (sample (voltage ch))
             + acSquare (average (sample (voltage ch))) (sample (voltage ch)))"
  by (simp add: process_channel_def Let_def)

text \<open>
  C8. For a channel with voltage samples, after the pass \<open>dc\<close> is their arithmetic mean,
  \<open>ac\<close> is the root of the mean square of the samples less \<open>dc\<close>, \<open>rms\<close> is
  \<open>sqrt (dc\<^sup>2 + ac\<^sup>2)\<close>, and so \<open>rms\<^sup>2 = dc\<^sup>2 + ac\<^sup>2\<close> (in exact arithmetic).
\<close>

theorem channel_statistics:
  fixes r2hc hc2r scope pp g result i ch'
  defines "ch' \<equiv> snd (spectrum_process r2hc hc2r scope pp g result) ! i"
  assumes "i < length result" and "sample (voltage (result ! i)) \<noteq> []"
  shows "dc ch' = sum_list (sample (voltage (result ! i))) / real (length (sample (voltage (result ! i))))
    \<and> ac ch' = sqrt ((\<Sum>x\<leftarrow>sample (voltage (result ! i)). (x - dc ch')\<^sup>2)
                      / real (length (sample (voltage (result ! i)))))
    \<and> rms ch' = sqrt ((dc ch')\<^sup>2 + (ac ch')\<^sup>2)
    \<and> (rms ch')\<^sup>2 = (dc ch')\<^sup>2 + (ac ch')\<^sup>2"
proof -
  let ?xs = "sample (voltage (result ! i))"
  obtain u g' where ch': "ch' = snd (process_channel r2hc hc2r u pp g' (result ! i))"
    using assms by (simp add: spectrum_process_def process_channels_nth)
  have d: "dc ch' = average ?xs"
    by (simp add: ch' process_channel_dc)
  have a: "ac ch' = sqrt (acSquare (dc ch') ?xs)"
    by (simp add: ch' process_channel_ac process_channel_dc)
  have a2: "(ac ch')\<^sup>2 = acSquare (dc ch') ?xs"
    by (simp add: a acSquare_nonneg)
  have r: "rms ch' = sqrt ((dc ch')\<^sup>2 + (ac ch')\<^sup>2)"
    unfolding a2 by (simp add: ch' process_channel_rms process_channel_dc power2_eq_square)
  have "0 \<le> (dc ch')\<^sup>2 + (ac ch')\<^sup>2" by simp
  then have r2: "(rms ch')\<^sup>2 = (dc ch')\<^sup>2 + (ac ch')\<^sup>2"
    by (simp add: r)
  show ?thesis
    using d a r r2 by (simp add: average_eq acSquare_eq)
qed

theorem channel_statistics_witness:
  "dc (snd (spectrum_process dft_r2hc dft_hc2r example_scope example_postprocessing new_generator
             [channel_of [1, 2, 3, 6] 0.001]) ! 0) = 3
   \<and> ac (snd (spectrum_process dft_r2hc dft_hc2r example_scope example_postprocessing new_generator
             [channel_of [1, 2, 3, 6] 0.001]) ! 0) = sqrt (7 / 2)
   \<and> (rms (snd (spectrum_process dft_r2hc dft_hc2r example_scope example_postprocessing new_generator
             [channel_of [1, 2, 3, 6] 0.001]) ! 0))\<^sup>2 = 25 / 2"
proof -
  let ?ch = "snd (spectrum_process dft_r2hc dft_hc2r example_scope example_postprocessing new_generator
             [channel_of [1, 2, 3, 6] 0.001]) ! 0"
  have s: "sample (voltage ([channel_of [1, 2, 3, 6] 0.001] ! 0)) = [1, 2, 3, 6]"
    by (simp add: channel_of_def)
  note w = channel_statistics [of 0 "[channel_of [1, 2, 3, 6] 0.001]"
      dft_r2hc dft_hc2r example_scope example_postprocessing new_generator, unfolded s]
  have d: "dc ?ch = 3" using w by simp
  have a: "ac ?ch = sqrt (7 / 2)" using w unfolding d by (simp add: power2_eq_square)
  have "(rms ?ch)\<^sup>2 = (dc ?ch)\<^sup>2 + (ac ?ch)\<^sup>2" using w by simp
  then have "(rms ?ch)\<^sup>2 = 25 / 2" unfolding d a by (simp add: power2_eq_square)
  with d a show ?thesis by simp
qed

subsection \<open>Window coefficients at the two ends\<close>

lemma cos_4pi: "cos (4 * pi) = 1"
  using cos_2npi [of 2] by simp

lemma cos_6pi: "cos (6 * pi) = 1"
  using cos_2npi [of 3] by simp

lemma cos_8pi: "cos (8 * pi) = 1"
  using cos_2npi [of 4] by simp

text \<open>With \<open>windowEnd = N - 1 \<ge> 1\<close>, the windows that are sums of cosines or a sine of
  \<open>p/(N-1)\<close> have the boundary values of their formula at both ends, and the rectangular
  window is 1 everywhere.\<close>

lemma window_ends_cosine_sums:
  assumes "1 \<le> windowEnd" and "p = 0 \<or> p = windowEnd"
  shows "windowValue HAMMING n windowEnd p = 0.08"
    and "windowValue HANN n windowEnd p = 0"
    and "windowValue BLACKMAN n windowEnd p = 0"
    and "windowValue NUTTALL n windowEnd p = 0"
    and "windowValue BLACKMANHARRIS n windowEnd p = 0.00006"
    and "windowValue BLACKMANNUTTALL n windowEnd p = 0.0003628"
    and "windowValue FLATTOP n windowEnd p = 0"
    and "windowValue RECTANGULAR n windowEnd q = 1"
  using assms by (auto simp: windowValue_def cos_4pi cos_6pi cos_8pi)

lemma window_ends_sine:
  assumes "1 \<le> windowEnd" and "p = 0 \<or> p = windowEnd"
  shows "windowValue COSINE n windowEnd p = 0"
    and "windowValue LANCZOS n windowEnd p = 0"
    and "windowValue BARTLETTHANN n windowEnd p = 0"
  using assms by (auto simp: windowValue_def Let_def)

text \<open>The Bartlett window halves \<open>windowEnd\<close> on unsigned integers: for an even sample
  count its ends are below 0.\<close>

lemma bartlett_window_even_count: "windowValue BARTLETT 4 3 0 = - 1 / 3"
  by (simp add: windowValue_def)

text \<open>The left end of the Gaussian window differs from \<open>exp (-3.125)\<close> for every sample
  count from 2 on: the unsigned difference is 0 for two samples and wraps around for more.\<close>

lemma gauss_window_left_end_every_count:
  assumes "2 \<le> n" and "n < 4294967296"
  shows "windowValue GAUSS n (n - 1) 0 \<noteq> exp (- 3.125)"
proof -
  define we where "we = n - 1"
  have we: "1 \<le> we" "we < 4294967296"
    using assms by (simp_all add: we_def)
  show ?thesis
  proof (cases "we div 2 = 0")
    case True
    then have "windowValue GAUSS n we 0 = 1"
      by (simp add: windowValue_def usub_def)
    then show ?thesis
      by (simp add: we_def)
  next
    case False
    then have u: "usub 0 (we div 2) = 4294967296 - we div 2"
      using we by (simp add: usub_def)
    define a where "a = real (4294967296 - we div 2)"
    define b where "b = 0.4 * real we / 2"
    have "real (we div 2) \<le> real we / 2"
      using of_nat_div_le_of_nat [of we 2, where ?'a = real] by simp
    moreover have "a = 4294967296 - real (we div 2)"
      using we by (simp add: a_def of_nat_diff)
    moreover have "real we < 4294967296"
      using we by simp
    ultimately have a: "real we / 2 < a"
      by linarith
    have b: "0 < b"
      using we by (simp add: b_def)
    have "(5 / 2) * b < a"
      using a by (simp add: b_def)
    then have "5 / 2 < a / b"
      using b by (simp only: pos_less_divide_eq)
    then have "(5 / 2)\<^sup>2 < (a / b)\<^sup>2"
      by (intro power_strict_mono) simp_all
    then have "- 0.5 * (a / b)\<^sup>2 < - 3.125"
      by (simp add: power2_eq_square mult.commute)
    then have "exp (- 0.5 * (a / b)\<^sup>2) < exp (- 3.125)"
      by (simp only: exp_less_cancel_iff)
    moreover have "windowValue GAUSS n we 0 = exp (- 0.5 * (a / b)\<^sup>2)"
      by (simp add: windowValue_def u a_def b_def)
    ultimately show ?thesis
      by (simp add: we_def)
  qed
qed

text \<open>
  C3. The Gaussian window subtracts \<open>windowEnd / 2\<close> from \<open>windowPosition\<close> on unsigned
  integers. With three samples the difference at position 0 wraps around to \<open>4294967295\<close>,
  and the first coefficient is not the boundary value \<open>exp (-3.125)\<close> of the formula.
\<close>

theorem gauss_window_left_end:
  "the (lastWindowBuffer (newWindow GAUSS 3)) ! 0 = exp (- 0.5 * (4294967295 / 0.4)\<^sup>2)
   \<and> the (lastWindowBuffer (newWindow GAUSS 3)) ! 0 \<noteq> exp (- 3.125)"
  by (simp add: newWindow_def u32_def usub_def windowValue_def upt_rec power2_eq_square)

subsection \<open>Conversion into dB and the spectrum peak\<close>

lemma dBValue_cases:
  "offsetLimit \<le> dBValue offset offsetLimit bin
   \<and> (bin \<noteq> 0 \<and> offsetLimit \<le> 20 * log 10 \<bar>bin\<bar> + offset
        \<longrightarrow> dBValue offset offsetLimit bin = 20 * log 10 \<bar>bin\<bar> + offset)
   \<and> (bin = 0 \<or> 20 * log 10 \<bar>bin\<bar> + offset < offsetLimit
        \<longrightarrow> dBValue offset offsetLimit bin = offsetLimit)"
  by (simp add: dBValue_def Let_def)

lemma process_channel_frequency:
  "frequency (snd (process_channel r2hc hc2r used pp g ch)) =
     (let f0 = correlationFrequency (interval (voltage ch))
                 (peakPosition (correlation_of r2hc hc2r pp g ch) (length (sample (voltage ch))));
          peakPos = (if used \<or> 0 = f0
                     then snd (dB_pass pp (dftLength_of (length (sample (voltage ch))))
                                 (truncatedSpectrum r2hc pp g ch))
                     else 0)
      in if peakPos \<noteq> 0
         then interval (spectrum (snd (process_channel r2hc hc2r used pp g ch))) * real peakPos
         else f0)"
  by (simp add: process_channel_def Let_def)

text \<open>
  C5. For a channel of \<open>2 \<le> N < 2^32\<close> samples: when the spectrum of the channel is in
  use or the frequency from the correlation is 0, every value of the truncated spectrum is
  converted with \<open>offset = 60 - spectrumReference - 20 log10 (N div 2)\<close>, and otherwise
  the truncated spectrum is left as it is. The converted value is \<open>20 log10 |bin| + offset\<close>
  when that is at least \<open>offsetLimit = spectrumLimit - spectrumReference\<close>, and
  \<open>offsetLimit\<close> itself when it is below (also for a bin that is 0, whose logarithm is minus
  infinity); it is never below \<open>offsetLimit\<close>.
\<close>

theorem dB_conversion:
  fixes r2hc hc2r used pp g ch offset offsetLimit f0
  defines "offset \<equiv> 60 - spectrumReference pp - 20 * log 10 (real (length (sample (voltage ch)) div 2))"
    and "offsetLimit \<equiv> spectrumLimit pp - spectrumReference pp"
    and "f0 \<equiv> correlationFrequency (interval (voltage ch))
                (peakPosition (correlation_of r2hc hc2r pp g ch) (length (sample (voltage ch))))"
  assumes "2 \<le> length (sample (voltage ch))" and "length (sample (voltage ch)) < 4294967296"
    and "interval (voltage ch) \<noteq> 0"
  shows "(used \<or> f0 = 0 \<longrightarrow>
            sample (spectrum (snd (process_channel r2hc hc2r used pp g ch)))
              = map (dBValue offset offsetLimit) (truncatedSpectrum r2hc pp g ch))
       \<and> (\<not> used \<and> f0 \<noteq> 0 \<longrightarrow>
            sample (spectrum (snd (process_channel r2hc hc2r used pp g ch)))
              = truncatedSpectrum r2hc pp g ch)
       \<and> (\<forall>bin. offsetLimit \<le> dBValue offset offsetLimit bin
             \<and> (bin \<noteq> 0 \<and> offsetLimit \<le> 20 * log 10 \<bar>bin\<bar> + offset
                  \<longrightarrow> dBValue offset offsetLimit bin = 20 * log 10 \<bar>bin\<bar> + offset)
             \<and> (bin = 0 \<or> 20 * log 10 \<bar>bin\<bar> + offset < offsetLimit
                  \<longrightarrow> dBValue offset offsetLimit bin = offsetLimit))"
proof -
  have "dftLength_of (length (sample (voltage ch))) = length (sample (voltage ch)) div 2"
    using assms(5) by (simp add: dftLength_of_def u32_id)
  then have "sample (spectrum (snd (process_channel r2hc hc2r used pp g ch)))
      = (if used \<or> f0 = 0 then map (dBValue offset offsetLimit) (truncatedSpectrum r2hc pp g ch)
         else truncatedSpectrum r2hc pp g ch)"
    by (simp add: spectrum_process_channel offset_def offsetLimit_def f0_def)
  then show ?thesis
    using dBValue_cases [of offsetLimit offset] by auto
qed

theorem dB_conversion_witness:
  "sample (spectrum (snd (process_channel dft_r2hc dft_hc2r True example_postprocessing new_generator
      (channel_of [1, 2, 3, 4, 5, 6, 7] 0.001))))
     = map (dBValue (60 - 20 * log 10 3) (- 20))
         (truncatedSpectrum dft_r2hc example_postprocessing new_generator
            (channel_of [1, 2, 3, 4, 5, 6, 7] 0.001))
   \<and> dBValue (60 - 20 * log 10 3) (- 20) 0 = - 20
   \<and> dBValue (60 - 20 * log 10 3) (- 20) 3 = 60"
proof -
  have n: "length (sample (voltage (channel_of [1, 2, 3, 4, 5, 6, 7] 0.001))) = 7"
    and i: "interval (voltage (channel_of [1, 2, 3, 4, 5, 6, 7] 0.001)) \<noteq> 0"
    by (simp_all add: channel_of_def)
  have d: "(7::nat) div 2 = 3" by simp
  have "2 \<le> length (sample (voltage (channel_of [1, 2, 3, 4, 5, 6, 7] 0.001)))"
    and "length (sample (voltage (channel_of [1, 2, 3, 4, 5, 6, 7] 0.001))) < 4294967296"
    by (simp_all add: channel_of_def)
  note w = dB_conversion [OF this i, where used = True and pp = example_postprocessing
      and ?r2hc = dft_r2hc and ?hc2r = dft_hc2r and g = new_generator, unfolded n d]
  have pp: "spectrumReference example_postprocessing = 0" "spectrumLimit example_postprocessing = - 20"
    by (simp_all add: example_postprocessing_def)
  from w have 1: "sample (spectrum (snd (process_channel dft_r2hc dft_hc2r True example_postprocessing
         new_generator (channel_of [1, 2, 3, 4, 5, 6, 7] 0.001))))
     = map (dBValue (60 - 20 * log 10 3) (- 20))
         (truncatedSpectrum dft_r2hc example_postprocessing new_generator
            (channel_of [1, 2, 3, 4, 5, 6, 7] 0.001))"
    by (simp add: pp)
  from w have 2: "dBValue (60 - 20 * log 10 3) (- 20) 0 = - 20"
    by (simp add: pp)
  from w have "(3::real) \<noteq> 0 \<and> - 20 \<le> 20 * log 10 \<bar>3\<bar> + (60 - 20 * log 10 3)
      \<longrightarrow> dBValue (60 - 20 * log 10 3) (- 20) 3 = 20 * log 10 \<bar>3\<bar> + (60 - 20 * log 10 3)"
    by (simp add: pp)
  then have 3: "dBValue (60 - 20 * log 10 3) (- 20) 3 = 60" by simp
  from 1 2 3 show ?thesis by simp
qed

subsection \<open>The peak of the correlation\<close>

lemma peak_inv_init: "peak_inv c 1 (c ! 0, 0, 0)"
  by (simp add: peak_inv_def)

lemma peak_inv_step:
  assumes "peak_inv c m st" and "1 \<le> m"
  shows "peak_inv c (Suc m) (peak_step c st m)"
proof -
  obtain minC peakC P where st: "st = (minC, peakC, P)" by (cases st) auto
  from assms(1) have lo: "\<forall>q<m. minC \<le> c ! q" and ex: "\<exists>q<m. minC = c ! q" and Pm: "P < m"
    and none: "P = 0 \<Longrightarrow> peakC = 0 \<and> (\<forall>p. 1 \<le> p \<and> p < m \<longrightarrow> \<not> peakCandidate c p)"
    and some: "P \<noteq> 0 \<Longrightarrow> peakCandidate c P \<and> peakC = c ! P
                 \<and> (\<forall>p. 1 \<le> p \<and> p < m \<and> peakCandidate c p \<longrightarrow>
                        c ! p \<le> c ! P \<and> (p < P \<longrightarrow> c ! p < c ! P))"
    by (auto simp: peak_inv_def st split: if_splits)
  have pk0: "0 \<le> peakC"
    using none some by (cases "P = 0") (auto simp: peakCandidate_def)
  have cand_gt: "peakCandidate c m \<Longrightarrow> minC < c ! m"
    using lo by (fastforce simp: peakCandidate_def)
  have below: "\<And>p. 1 \<le> p \<Longrightarrow> p < m \<Longrightarrow> peakCandidate c p \<Longrightarrow> c ! p \<le> peakC"
    using none some by (cases "P = 0") auto
  show ?thesis
  proof (cases "c ! m > peakC \<and> c ! m > minC")
    case True
    have cand: "peakCandidate c m"
      using True pk0 ex by (auto simp: peakCandidate_def)
    have 1: "\<forall>q<Suc m. minC \<le> c ! q"
      using lo True by (auto simp: less_Suc_eq)
    have 2: "\<exists>q<Suc m. minC = c ! q"
      using ex by (auto simp: less_Suc_eq)
    have 3: "\<forall>p. 1 \<le> p \<and> p < Suc m \<and> peakCandidate c p \<longrightarrow>
               c ! p \<le> c ! m \<and> (p < m \<longrightarrow> c ! p < c ! m)"
      using below True by (fastforce simp: less_Suc_eq)
    have step: "peak_step c st m = (minC, c ! m, m)"
      using True by (simp add: peak_step_def st)
    from assms(2) cand 1 2 3 show ?thesis
      unfolding step by (simp add: peak_inv_def)
  next
    case False
    have nc: "peakCandidate c m \<Longrightarrow> c ! m \<le> peakC"
      using False cand_gt by auto
    have nc0: "P = 0 \<Longrightarrow> \<not> peakCandidate c m"
      using nc none by (auto simp: peakCandidate_def)
    have keep: "if P = 0 then peakC = 0 \<and> (\<forall>p. 1 \<le> p \<and> p < Suc m \<longrightarrow> \<not> peakCandidate c p)
            else peakCandidate c P \<and> peakC = c ! P
                 \<and> (\<forall>p. 1 \<le> p \<and> p < Suc m \<and> peakCandidate c p \<longrightarrow>
                        c ! p \<le> c ! P \<and> (p < P \<longrightarrow> c ! p < c ! P))"
    proof (cases "P = 0")
      case True
      then show ?thesis using none nc0 by (auto simp: less_Suc_eq)
    next
      case F: False
      then show ?thesis using some [OF F] nc Pm by (auto simp: less_Suc_eq)
    qed
    show ?thesis
    proof (cases "c ! m < minC")
      case True
      have 1: "\<forall>q<Suc m. c ! m \<le> c ! q"
        using lo True by (auto simp: less_Suc_eq)
      have 2: "\<exists>q<Suc m. c ! m = c ! q" by auto
      have step: "peak_step c st m = (c ! m, peakC, P)"
        using False True by (simp add: peak_step_def st)
      from 1 2 keep Pm show ?thesis
        unfolding step by (simp add: peak_inv_def)
    next
      case F2: False
      have 1: "\<forall>q<Suc m. minC \<le> c ! q"
        using lo F2 by (auto simp: less_Suc_eq)
      have 2: "\<exists>q<Suc m. minC = c ! q"
        using ex by (auto simp: less_Suc_eq)
      have step: "peak_step c st m = (minC, peakC, P)"
        using False F2 by (simp add: peak_step_def st)
      from 1 2 keep Pm show ?thesis
        unfolding step by (simp add: peak_inv_def)
    qed
  qed
qed

lemma peak_inv_loop: "peak_inv c (Suc k) (foldl (peak_step c) (c ! 0, 0, 0) [1 ..< Suc k])"
proof (induction k)
  case 0
  show ?case using peak_inv_init by simp
next
  case (Suc k)
  have "foldl (peak_step c) (c ! 0, 0, 0) [1 ..< Suc (Suc k)]
          = peak_step c (foldl (peak_step c) (c ! 0, 0, 0) [1 ..< Suc k]) (Suc k)"
    by simp
  with peak_inv_step [OF Suc] show ?case by simp
qed

lemma peak_search_inv: "1 \<le> n div 2 \<Longrightarrow> peak_inv c (n div 2) (peak_search c n)"
  using peak_inv_loop [of c "n div 2 - 1"] by (simp add: peak_search_def)

lemma peak_search_small: "n div 2 = 0 \<Longrightarrow> peakPosition c n = 0"
  by (simp add: peak_search_def peakPosition_def)

text \<open>
  C1, as the code has it. Among the positions \<open>1..N/2-1\<close> the search takes those whose
  correlation is positive and exceeds the running minimum; \<open>peakPosition\<close> is the first
  position where the greatest of these values occurs (an equal later value does not
  replace it, a greater later one does), and 0 when there is no such position. The
  frequency before the spectrum peak is looked at is \<open>1 / (interval * peakPosition)\<close> for
  \<open>peakPosition > 100\<close> and 0 otherwise.
\<close>

theorem autocorrelation_peak:
  fixes c n iv P
  defines "P \<equiv> peakPosition c n"
  shows "((P = 0 \<and> (\<forall>p \<in> {1 ..< n div 2}. \<not> peakCandidate c p))
          \<or> (P \<in> {1 ..< n div 2} \<and> peakCandidate c P
              \<and> (\<forall>p \<in> {1 ..< n div 2}. peakCandidate c p \<longrightarrow>
                     c ! p \<le> c ! P \<and> (p < P \<longrightarrow> c ! p < c ! P))))
         \<and> correlationFrequency iv P = (if 100 < P then 1 / (iv * real P) else 0)"
proof -
  have "(P = 0 \<and> (\<forall>p \<in> {1 ..< n div 2}. \<not> peakCandidate c p))
          \<or> (P \<in> {1 ..< n div 2} \<and> peakCandidate c P
              \<and> (\<forall>p \<in> {1 ..< n div 2}. peakCandidate c p \<longrightarrow>
                     c ! p \<le> c ! P \<and> (p < P \<longrightarrow> c ! p < c ! P)))"
  proof (cases "n div 2 = 0")
    case True
    then show ?thesis by (simp add: P_def peak_search_small)
  next
    case False
    then have "peak_inv c (n div 2) (peak_search c n)" by (simp add: peak_search_inv)
    then show ?thesis
      by (cases "peak_search c n") (auto simp: P_def peak_inv_def peakPosition_def split: if_splits)
  qed
  then show ?thesis by (simp add: correlationFrequency_def)
qed

theorem autocorrelation_peak_witness:
  "peakPosition [5, - 1, 1, 0, 2, 0, 2, 0, 1, - 1] 10 = 4
   \<and> peakCandidate [5, - 1, 1, 0, 2, 0, 2, 0, 1, - 1] 4
   \<and> peakCandidate [5, - 1, 1, 0, 2, 0, 2, 0, 1, - 1] 2
   \<and> [5, - 1, 1, 0, 2, 0, 2, 0, 1, - 1] ! 2 < ([5, - 1, 1, 0, 2, 0, 2, 0, 1, - 1] ! 4 :: real)
   \<and> correlationFrequency 0.001 (peakPosition [5, - 1, 1, 0, 2, 0, 2, 0, 1, - 1] 10) = 0"
proof -
  have e: "peakPosition [5, - 1, 1, 0, 2, 0, 2, 0, 1, - 1] 10 = 4"
    by code_simp
  have c2: "peakCandidate [5, - 1, 1, 0, 2, 0, 2, 0, 1, - 1] 2"
    by code_simp
  have d: "(10::nat) div 2 = 5" by simp
  show ?thesis
    using autocorrelation_peak [of "[5, - 1, 1, 0, 2, 0, 2, 0, 1, - 1]" 10 "0.001"] c2
    unfolding e d by simp
qed

text \<open>
  C1, as the specification words it, fails: in the correlation below (symmetric as a
  circular correlation is) the first local maximum above the running minimum is at
  position 2 (value 1), and the search returns position 4 (value 2).
\<close>

theorem peak_is_not_first_local_maximum:
  "peakPosition [5, - 1, 1, 0, 2, 0, 2, 0, 1, - 1] 10
     \<noteq> firstLocalMaximum_spec [5, - 1, 1, 0, 2, 0, 2, 0, 1, - 1] 10"
  by code_simp

subsection \<open>A pass over six samples of a cosine\<close>

lemma sum6: "(\<Sum>j = 0 ..< 6. f j) = f 0 + f 1 + f 2 + f 3 + f 4 + f 5" for f :: "nat \<Rightarrow> real"
  by (simp add: eval_nat_numeral)

lemma cos_thirds:
  "cos (pi / 3) = 1 / 2" "cos (pi * 2 / 3) = - 1 / 2"
  "cos (pi * 4 / 3) = - 1 / 2" "cos (pi * 5 / 3) = 1 / 2"
proof -
  show 1: "cos (pi / 3) = 1 / 2" by (rule cos_60)
  show "cos (pi * 2 / 3) = - 1 / 2" by (rule cos_120')
  have "cos (pi + pi / 3) = - cos (pi / 3)" by (rule cos_periodic_pi2)
  moreover have "pi + pi / 3 = pi * 4 / 3" by simp
  ultimately show "cos (pi * 4 / 3) = - 1 / 2" using 1 by simp
  have "cos (2 * pi - pi / 3) = cos (pi / 3)" by (rule cos_2pi_minus)
  moreover have "2 * pi - pi / 3 = pi * 5 / 3" by simp
  ultimately show "cos (pi * 5 / 3) = 1 / 2" using 1 by simp
qed

lemma sin_thirds:
  "sin (pi * 2 / 3) = sin (pi / 3)" "sin (pi * 4 / 3) = - sin (pi / 3)"
  "sin (pi * 5 / 3) = - sin (pi / 3)"
proof -
  show "sin (pi * 2 / 3) = sin (pi / 3)" by (simp add: sin_120' sin_60)
  have "sin (pi + pi / 3) = - sin (pi / 3)" by (rule sin_periodic_pi2)
  moreover have "pi + pi / 3 = pi * 4 / 3" by simp
  ultimately show "sin (pi * 4 / 3) = - sin (pi / 3)" by simp
  have "sin (2 * pi - pi / 3) = - sin (pi / 3)" by (rule sin_2pi_minus)
  moreover have "2 * pi - pi / 3 = pi * 5 / 3" by simp
  ultimately show "sin (pi * 5 / 3) = - sin (pi / 3)" by simp
qed

lemma dft_cosine6:
  "dft_r2hc 6 cosine6 0 = 0" "dft_r2hc 6 cosine6 1 = 0.0015" "dft_r2hc 6 cosine6 5 = 0"
  by (simp_all add: dft_r2hc_def sum6 cosine6_def cos_thirds sin_thirds)

lemma rectangular_window6:
  "the (lastWindowBuffer (calculateWindow rectangular_postprocessing 6 new_generator))
     = [1, 1, 1, 1, 1, 1]"
  by (simp add: calculateWindow_def new_generator_def rectangular_postprocessing_def newWindow_def
      u32_def usub_def windowValue_def upt_rec)

lemma average_cosine6: "average cosine6 = 0"
  by (simp add: average_def cosine6_def)

lemma windowed_cosine6: "windowedValues [1, 1, 1, 1, 1, 1] 0 cosine6 = cosine6"
  by (simp add: windowedValues_def cosine6_def upt_rec)

lemma magnitude_pass6:
  "snd (magnitude_pass 6 3 ws [f0, f1, f2, f3, f4, f5]) = [f0, sqrt (f1 * f1 + f5 * f5)]"
  by (simp add: magnitude_pass_def magnitude_step_def Let_def upt_rec usub_def resize_def)

lemma truncatedSpectrum_cosine6:
  "truncatedSpectrum dft_r2hc rectangular_postprocessing new_generator (channel_of cosine6 dt)
     = [0, 0.0015]"
proof -
  have l: "length cosine6 = 6" by (simp add: cosine6_def)
  have "[0 ..< 6] = [0, 1, 2, 3, 4, 5 :: nat]"
    by (simp add: upt_rec)
  then have f: "fftw_execute dft_r2hc 6 cosine6
     = [dft_r2hc 6 cosine6 0, dft_r2hc 6 cosine6 1, dft_r2hc 6 cosine6 2, dft_r2hc 6 cosine6 3,
        dft_r2hc 6 cosine6 4, dft_r2hc 6 cosine6 5]"
    by (simp add: fftw_execute_def)
  have d: "dftLength_of 6 = 3" by (simp add: dftLength_of_def u32_def)
  have one: "dft_r2hc 6 cosine6 (Suc 0) = 0.0015"
    using dft_cosine6(2) by simp
  have sq: "sqrt (9 / 4000000) = 3 / 2000"
    by (rule real_sqrt_unique) (simp_all add: power2_eq_square)
  show ?thesis
    by (simp add: truncatedSpectrum_def magnitudes_def channel_of_def Let_def l
        rectangular_window6 average_cosine6 windowed_cosine6 f d magnitude_pass6 dft_cosine6 one sq)
qed

lemma peakPosition_le: "peakPosition c n \<le> n div 2"
proof (cases "n div 2 = 0")
  case True
  then show ?thesis by (simp add: peak_search_small)
next
  case False
  then have "peak_inv c (n div 2) (peak_search c n)" by (simp add: peak_search_inv)
  then show ?thesis
    by (cases "peak_search c n") (auto simp: peak_inv_def peakPosition_def)
qed

lemma correlationFrequency_short: "n \<le> 201 \<Longrightarrow> correlationFrequency iv (peakPosition c n) = 0"
proof -
  assume "n \<le> 201"
  then have "n div 2 \<le> 100" by simp
  with peakPosition_le [of c n] have "\<not> 100 < peakPosition c n" by simp
  then show ?thesis by (simp add: correlationFrequency_def)
qed

lemma log10_half_millivolt: "- 4 < log 10 (0.0005::real)" "log 10 (0.0005::real) < - 3"
  by (simp_all add: less_log_iff log_less_iff powr_minus)

lemma log10_quotient: "log 10 (0.0015::real) - log 10 3 = log 10 0.0005"
  using log_divide [of 10 "0.0015" 3] by simp

lemma dB_pass_cosine6:
  "dB_pass rectangular_postprocessing 3 [0, 0.0015] = ([- 20, 20 * log 10 0.0005 + 60], 0)"
  using log10_half_millivolt log10_quotient
  by (simp add: dB_pass_def dBValue_def Let_def rectangular_postprocessing_def)

lemma process_cosine6:
  "sample (spectrum (snd (process_channel dft_r2hc dft_hc2r True rectangular_postprocessing
      new_generator (channel_of cosine6 dt)))) = [- 20, 20 * log 10 0.0005 + 60]"
  "frequency (snd (process_channel dft_r2hc dft_hc2r True rectangular_postprocessing
      new_generator (channel_of cosine6 dt))) = 0"
proof -
  let ?ch = "channel_of cosine6 dt"
  have l: "length (sample (voltage ?ch)) = 6"
    by (simp add: channel_of_def cosine6_def)
  have d: "dftLength_of 6 = 3"
    by (simp add: dftLength_of_def u32_def)
  have z: "correlationFrequency (interval (voltage ?ch))
             (peakPosition (correlation_of dft_r2hc dft_hc2r rectangular_postprocessing
                new_generator ?ch) 6) = 0"
    by (rule correlationFrequency_short) simp
  show "sample (spectrum (snd (process_channel dft_r2hc dft_hc2r True rectangular_postprocessing
             new_generator ?ch))) = [- 20, 20 * log 10 0.0005 + 60]"
    using dB_pass_cosine6 by (simp add: process_channel_def Let_def l d truncatedSpectrum_cosine6)
  show "frequency (snd (process_channel dft_r2hc dft_hc2r True rectangular_postprocessing
             new_generator ?ch)) = 0"
    using dB_pass_cosine6 by (simp add: process_channel_def Let_def l d truncatedSpectrum_cosine6 z)
qed

text \<open>
  C2. The search for the spectrum peak starts from the first bin as it is before the
  conversion, and compares the converted values with it. Six samples of a cosine of
  amplitude 0.5 mV, under the rectangular window with reference 0 and limit -20, have the
  truncated spectrum \<open>[0, 0.0015]\<close>; the converted values are \<open>-20\<close> and about \<open>-6.02\<close>.
  The largest one is at index 1, but it is not above the start value 0: \<open>peakPos\<close> stays 0
  and the frequency of the channel is 0 after the pass.
\<close>

theorem spectrum_peak_missed:
  "sample (spectrum (snd (spectrum_process dft_r2hc dft_hc2r example_scope rectangular_postprocessing
      new_generator [channel_of cosine6 0.001]) ! 0)) = [- 20, 20 * log 10 0.0005 + 60]
   \<and> (- 20 :: real) < 20 * log 10 0.0005 + 60
   \<and> snd (dB_pass rectangular_postprocessing 3 [0, 0.0015]) = 0
   \<and> frequency (snd (spectrum_process dft_r2hc dft_hc2r example_scope rectangular_postprocessing
      new_generator [channel_of cosine6 0.001]) ! 0) = 0"
proof -
  have nth: "snd (spectrum_process dft_r2hc dft_hc2r example_scope rectangular_postprocessing
      new_generator [channel_of cosine6 dt]) ! 0
     = snd (process_channel dft_r2hc dft_hc2r True rectangular_postprocessing new_generator
         (channel_of cosine6 dt))" for dt
    by (simp add: spectrum_process_def Let_def example_scope_def channel_of_def cosine6_def)
  show ?thesis
    using log10_half_millivolt dB_pass_cosine6
    by (simp add: nth process_cosine6)
qed

subsection \<open>The window buffer in the pass\<close>













end
